theory Spec2Isabelle
  imports Complex_Main "HOL-Library.Word"
begin

section \<open>JavaScript strings\<close>

text \<open>
  A JavaScript string is a sequence of UTF-16 code units. The characters the program
  tests for outside ASCII, U+222B (integral sign) and U+221A (square root sign), are one
  code unit each.
\<close>

type_synonym js_char = "16 word"
type_synonym js_string = "js_char list"

text \<open>An ASCII literal of the source, as code units.\<close>

definition lit :: "string \<Rightarrow> js_string" where
  "lit cs = map of_char cs"

text \<open>\<^verbatim>\<open>s.startsWith(p)\<close>, and the same test at any position.\<close>

fun startsWith :: "js_string \<Rightarrow> js_string \<Rightarrow> bool" where
  "startsWith s [] = True"
| "startsWith [] (p # ps) = False"
| "startsWith (c # cs) (p # ps) = (c = p \<and> startsWith cs ps)"

text \<open>\<^verbatim>\<open>s.includes(p)\<close>: \<open>p\<close> occurs in \<open>s\<close> as a contiguous run (\<open>includes\<close> is a keyword of Isabelle).\<close>

fun includes_str :: "js_string \<Rightarrow> js_string \<Rightarrow> bool" where
  "includes_str [] p = startsWith [] p"
| "includes_str (c # cs) p = (startsWith (c # cs) p \<or> includes_str cs p)"

text \<open>
  \<^verbatim>\<open>s.replace(/[class]/g, r)\<close> for a pattern that matches exactly one code unit:
  every code unit of the class is replaced by \<open>r\<close>, the others are kept, left to right.
\<close>

definition replace_all :: "(js_char \<Rightarrow> bool) \<Rightarrow> js_string \<Rightarrow> js_string \<Rightarrow> js_string" where
  "replace_all cls r s = concat (map (\<lambda>c. if cls c then r else [c]) s)"

definition backslash :: js_char where "backslash = 0x5C"
definition lbrace :: js_char where "lbrace = 0x7B"
definition rbrace :: js_char where "rbrace = 0x7D"
definition dollar :: js_char where "dollar = 0x24"

section \<open>Utility functions\<close>

text \<open>
  \<^verbatim>\<open>
  function cleanEquation(str) {
    return str.replace(/\\/g, "").replace(/\{|\}/g, "").replace(/\$/g, "");
  }
  \<close>
  (src/MMP/content.js, line 34).
\<close>

definition cleanEquation :: "js_string \<Rightarrow> js_string" where
  "cleanEquation str =
     replace_all (\<lambda>c. c = dollar) []
       (replace_all (\<lambda>c. c = lbrace \<or> c = rbrace) []
         (replace_all (\<lambda>c. c = backslash) [] str))"

text \<open>
  The second copy (src/MMP/content.js, line 1203) returns \<^verbatim>\<open>""\<close> first when
  \<^verbatim>\<open>!str\<close>; on a string that is the empty string.
\<close>

definition cleanEquation_guarded :: "js_string \<Rightarrow> js_string" where
  "cleanEquation_guarded str =
     (if str = [] then []
      else replace_all (\<lambda>c. c = dollar) []
             (replace_all (\<lambda>c. c = lbrace \<or> c = rbrace) []
               (replace_all (\<lambda>c. c = backslash) [] str)))"

text \<open>
  The regular expression \<^verbatim>\<open>/\b(sin|cos|tan)\b/\<close> (no flags). A word character is
  one of \<^verbatim>\<open>[A-Za-z0-9_]\<close>; \<^verbatim>\<open>\b\<close> holds at position \<open>i\<close> when exactly one of
  the code units before and at \<open>i\<close> is a word character, a position outside the string
  counting as a non-word character.
\<close>

definition is_word_char :: "js_char \<Rightarrow> bool" where
  "is_word_char c =
     ((0x61 \<le> c \<and> c \<le> 0x7A) \<or> (0x41 \<le> c \<and> c \<le> 0x5A) \<or> (0x30 \<le> c \<and> c \<le> 0x39) \<or> c = 0x5F)"

definition word_at :: "js_string \<Rightarrow> nat \<Rightarrow> bool" where
  "word_at s i = (i < length s \<and> is_word_char (s ! i))"

definition word_boundary :: "js_string \<Rightarrow> nat \<Rightarrow> bool" where
  "word_boundary s i = ((0 < i \<and> word_at s (i - 1)) \<noteq> word_at s i)"

definition trig_match_at :: "js_string \<Rightarrow> nat \<Rightarrow> bool" where
  "trig_match_at s i =
     (word_boundary s i \<and>
      (startsWith (drop i s) (lit ''sin'') \<or> startsWith (drop i s) (lit ''cos'')
         \<or> startsWith (drop i s) (lit ''tan'')) \<and>
      word_boundary s (i + 3))"

definition match_trig :: "js_string \<Rightarrow> bool" where
  "match_trig s = list_ex (trig_match_at s) [0..<Suc (length s)]"

definition integral_sign :: js_string where "integral_sign = [0x222B]"
definition sqrt_sign :: js_string where "sqrt_sign = [0x221A]"

text \<open>
  \<^verbatim>\<open>
  function detectMathTopic(input) {
    if (input.includes("=")) return "Algebra";
    if (input.match(/\b(sin|cos|tan)\b/)) return "Trigonometry";
    if (input.includes("\<integral>") || input.includes("d/dx")) return "Calculus";
    if (input.includes("\<surd>")) return "Roots";
    if (input.includes("%")) return "Percentages";
    if (input.includes("matrix") || input.includes("[")) return "Matrices";
    return "General Mathematics";
  }
  \<close>
  (src/MMP/content.js, lines 43 and 1209; the two non-ASCII literals are U+222B and U+221A).
\<close>

definition detectMathTopic :: "js_string \<Rightarrow> js_string" where
  "detectMathTopic input =
     (if includes_str input (lit ''='') then lit ''Algebra''
      else if match_trig input then lit ''Trigonometry''
      else if includes_str input integral_sign \<or> includes_str input (lit ''d/dx'') then lit ''Calculus''
      else if includes_str input sqrt_sign then lit ''Roots''
      else if includes_str input (lit ''%'') then lit ''Percentages''
      else if includes_str input (lit ''matrix'') \<or> includes_str input (lit ''['') then lit ''Matrices''
      else lit ''General Mathematics'')"

text \<open>
  The version in src/unnamed/part\_000 (line 87) tests the second rule with
  \<^verbatim>\<open>input.includes("sin") || input.includes("cos") || input.includes("tan")\<close>.
\<close>

definition detectMathTopic_includes :: "js_string \<Rightarrow> js_string" where
  "detectMathTopic_includes input =
     (if includes_str input (lit ''='') then lit ''Algebra''
      else if includes_str input (lit ''sin'') \<or> includes_str input (lit ''cos'') \<or> includes_str input (lit ''tan'')
        then lit ''Trigonometry''
      else if includes_str input integral_sign \<or> includes_str input (lit ''d/dx'') then lit ''Calculus''
      else if includes_str input sqrt_sign then lit ''Roots''
      else if includes_str input (lit ''%'') then lit ''Percentages''
      else if includes_str input (lit ''matrix'') \<or> includes_str input (lit ''['') then lit ''Matrices''
      else lit ''General Mathematics'')"

section \<open>JavaScript values\<close>

text \<open>
  A number is an IEEE double: a finite value (given by the rational it denotes, the two
  zeros identified), an infinity or NaN.
\<close>

datatype js_number = Num rat | PosInf | NegInf | NaN

text \<open>
  The values \<^verbatim>\<open>JSON.parse\<close> and \<^verbatim>\<open>response.json()\<close> produce. An object is the
  list of its own properties, first entry first; a key occurs once in it (where one
  occurs twice, lookup takes the first entry).
\<close>

datatype json =
    JNull
  | JBool bool
  | JNum js_number
  | JStr js_string
  | JArr "json list"
  | JObj "(js_string \<times> json) list"

text \<open>A JavaScript value here is \<^verbatim>\<open>undefined\<close> (\<open>None\<close>) or one of the above.\<close>

type_synonym js_value = "json option"

text \<open>
  Truthiness, as \<^verbatim>\<open>!v\<close>, \<^verbatim>\<open>&&\<close>, \<^verbatim>\<open>||\<close> and \<^verbatim>\<open>if (v)\<close> test it: the falsy
  values are \<^verbatim>\<open>undefined\<close>, \<^verbatim>\<open>null\<close>, \<^verbatim>\<open>false\<close>, zero, NaN and the empty string.
  Every array and every object is truthy, the empty ones too.
\<close>

fun truthy :: "js_value \<Rightarrow> bool" where
  "truthy None = False"
| "truthy (Some JNull) = False"
| "truthy (Some (JBool b)) = b"
| "truthy (Some (JNum n)) = (case n of Num r \<Rightarrow> r \<noteq> 0 | NaN \<Rightarrow> False | _ \<Rightarrow> True)"
| "truthy (Some (JStr s)) = (s \<noteq> [])"
| "truthy (Some (JArr xs)) = True"
| "truthy (Some (JObj kvs)) = True"

text \<open>An evaluation either throws or completes with a value.\<close>

datatype 'a completion = Throw | Normal 'a

text \<open>
  Property access \<^verbatim>\<open>v.k\<close> for the names the program reads (\<^verbatim>\<open>steps\<close>,
  \<^verbatim>\<open>final_answer\<close>, \<^verbatim>\<open>choices\<close>, \<^verbatim>\<open>message\<close>, \<^verbatim>\<open>content\<close>), none of which a
  built-in prototype defines: a TypeError on \<^verbatim>\<open>undefined\<close> and \<^verbatim>\<open>null\<close>, the own
  property of an object, \<^verbatim>\<open>undefined\<close> on anything else.
\<close>

fun member :: "js_value \<Rightarrow> js_string \<Rightarrow> js_value completion" where
  "member None k = Throw"
| "member (Some JNull) k = Throw"
| "member (Some (JObj kvs)) k = Normal (map_of kvs k)"
| "member (Some v) k = Normal None"

text \<open>Optional chaining \<^verbatim>\<open>v?.k\<close>: \<^verbatim>\<open>undefined\<close> where \<^verbatim>\<open>v.k\<close> would throw.\<close>

definition opt_member :: "js_value \<Rightarrow> js_string \<Rightarrow> js_value" where
  "opt_member v k = (case member v k of Throw \<Rightarrow> None | Normal x \<Rightarrow> x)"


text \<open>\<^verbatim>\<open>xs.slice(-n)\<close>: the last \<open>n\<close> elements, all of them when there are fewer.\<close>

definition slice_last :: "nat \<Rightarrow> 'a list \<Rightarrow> 'a list" where
  "slice_last n xs = drop (length xs - n) xs"

section \<open>The component's state\<close>

record js_file =
  file_name :: js_string
  file_type :: js_string

record history_entry =
  entry_input :: js_value
  entry_solution :: json
  entry_timestamp :: js_string

text \<open>
  An outbound call: \<^verbatim>\<open>upload({ file })\<close>, or \<^verbatim>\<open>fetch(url, { method: "POST", body:
  JSON.stringify(obj) })\<close> with the object \<open>obj\<close>.
\<close>

datatype request = Upload "js_file option" | Fetch js_string json

text \<open>
  The state cells of \<^verbatim>\<open>MainComponent\<close> that the operations below read or write
  (\<^verbatim>\<open>null\<close> is \<open>None\<close> in \<open>file_state\<close>, the cell \<^verbatim>\<open>file\<close>, in \<open>solution\<close>, \<open>error\<close> and \<open>previewImage\<close>), and
  \<open>requests\<close>, the outbound calls made so far, oldest first: not a cell of the
  component, the trace of its effects.
\<close>

record app_state =
  input :: js_value
  file_state :: "js_file option"
  solution :: "json option"
  error :: "js_string option"
  streamingResponse :: js_string
  history :: "history_entry list"
  previewImage :: "js_string option"
  savedSolutions :: json
  requests :: "request list"

definition init_state :: app_state where
  "init_state = \<lparr>input = Some (JStr []), file_state = None, solution = None, error = None,
     streamingResponse = [], history = [], previewImage = None, savedSolutions = JArr [],
     requests = []\<rparr>"

section \<open>The streaming handler\<close>

text \<open>
  The outcome of \<^verbatim>\<open>JSON.parse(message)\<close>, and of \<^verbatim>\<open>response.json()\<close>: a SyntaxError
  or the parsed value. The parser is the runtime's; the handlers take its outcome.
\<close>

datatype parse_outcome = SyntaxError | Parsed json

definition invalid_format_msg :: js_string where
  "invalid_format_msg = lit ''Received invalid response format. Please try again.''"

definition incomplete_msg :: js_string where
  "incomplete_msg = lit ''Received incomplete solution data. Please try again.''"

definition processing_msg :: js_string where
  "processing_msg = lit ''There was a problem processing the solution. Please try again.''"

text \<open>\<^verbatim>\<open>onChunk: (chunk) => setStreamingResponse(chunk)\<close>\<close>

definition onChunk :: "js_string \<Rightarrow> app_state \<Rightarrow> app_state" where
  "onChunk chunk st = st\<lparr>streamingResponse := chunk\<rparr>"

text \<open>
  \<^verbatim>\<open>
  onFinish: (message) => {
    setStreamingResponse("");
    try {
      const parsed = JSON.parse(message);
      if (!parsed?.steps || !parsed?.final_answer) {
        setError("Received incomplete solution data. Please try again.");
        return;
      }
      setSolution(parsed);
      setHistory((prev) =>
        [...prev, { input, solution: parsed, timestamp: new Date().toLocaleString() }
        ].slice(-5));
    } catch {
      setError("Received invalid response format. Please try again.");
    }
  }
  \<close>
  (src/MMP/content.js, lines 399 and 1528). \<open>inp\<close> is the \<^verbatim>\<open>input\<close> the closure holds,
  \<open>now\<close> the string \<^verbatim>\<open>new Date().toLocaleString()\<close> returns and \<open>r\<close> the outcome of
  \<^verbatim>\<open>JSON.parse(message)\<close>.
\<close>

definition onFinish :: "js_value \<Rightarrow> js_string \<Rightarrow> parse_outcome \<Rightarrow> app_state \<Rightarrow> app_state" where
  "onFinish inp now r st =
     (let st1 = st\<lparr>streamingResponse := []\<rparr> in
      case r of
        SyntaxError \<Rightarrow> st1\<lparr>error := Some invalid_format_msg\<rparr>
      | Parsed parsed \<Rightarrow>
          if \<not> truthy (opt_member (Some parsed) (lit ''steps''))
             \<or> \<not> truthy (opt_member (Some parsed) (lit ''final_answer''))
          then st1\<lparr>error := Some incomplete_msg\<rparr>
          else st1\<lparr>solution := Some parsed,
                 history := slice_last 5 (history st1 @
                   [\<lparr>entry_input = inp, entry_solution = parsed, entry_timestamp = now\<rparr>])\<rparr>)"

text \<open>
  The handler of src/unnamed/part\_000 (line 43) parses in an inner \<^verbatim>\<open>try\<close>, tests
  \<^verbatim>\<open>!parsedSolution || !parsedSolution.steps || !parsedSolution.final_answer\<close> without
  optional chaining, and has an outer \<^verbatim>\<open>catch\<close> that reports a third message.
\<close>

definition onFinish_part000 :: "js_value \<Rightarrow> js_string \<Rightarrow> parse_outcome \<Rightarrow> app_state \<Rightarrow> app_state" where
  "onFinish_part000 inp now r st =
     (let st1 = st\<lparr>streamingResponse := []\<rparr>;
          incomplete = st1\<lparr>error := Some incomplete_msg\<rparr>;
          caught = st1\<lparr>error := Some processing_msg\<rparr> in
      case r of
        SyntaxError \<Rightarrow> st1\<lparr>error := Some invalid_format_msg\<rparr>
      | Parsed parsedSolution \<Rightarrow>
          if \<not> truthy (Some parsedSolution) then incomplete
          else (case member (Some parsedSolution) (lit ''steps'') of
                  Throw \<Rightarrow> caught
                | Normal steps \<Rightarrow>
                    if \<not> truthy steps then incomplete
                    else (case member (Some parsedSolution) (lit ''final_answer'') of
                            Throw \<Rightarrow> caught
                          | Normal final_answer \<Rightarrow>
                              if \<not> truthy final_answer then incomplete
                              else st1\<lparr>solution := Some parsedSolution,
                                     history := slice_last 5 (history st1 @
                                       [\<lparr>entry_input = inp, entry_solution = parsedSolution,
                                         entry_timestamp = now\<rparr>])\<rparr>)))"

section \<open>Files, preview and reset\<close>

text \<open>
  \<^verbatim>\<open>
  const handleDrop = (e) => {
    e.preventDefault();
    e.stopPropagation();
    const droppedFile = e.dataTransfer.files[0];
    if (droppedFile && droppedFile.type.startsWith("image/")) {
      setFile(droppedFile);
      setPreviewImage(URL.createObjectURL(droppedFile));
    }
  };
  \<close>
  \<open>files\<close> is \<^verbatim>\<open>e.dataTransfer.files\<close> and \<open>blob\<close> the URL that
  \<^verbatim>\<open>URL.createObjectURL\<close> returns for the dropped file.
\<close>

definition handleDrop :: "js_string \<Rightarrow> js_file list \<Rightarrow> app_state \<Rightarrow> app_state" where
  "handleDrop blob files st =
     (case files of
        [] \<Rightarrow> st
      | droppedFile # _ \<Rightarrow>
          if startsWith (file_type droppedFile) (lit ''image/'')
          then st\<lparr>file_state := Some droppedFile, previewImage := Some blob\<rparr>
          else st)"

text \<open>
  \<^verbatim>\<open>
  const clearAll = () => {
    setInput(""); setFile(null); setSolution(null); setError(null); setPreviewImage(null);
  };
  \<close>
\<close>

definition clearAll :: "app_state \<Rightarrow> app_state" where
  "clearAll st = st\<lparr>input := Some (JStr []), file_state := None, solution := None,
     error := None, previewImage := None\<rparr>"

section \<open>Events\<close>

text \<open>
  The handlers above run to completion without suspending, so each is one step of the
  state. A run is a sequence of such steps.
\<close>

datatype event =
    Chunk js_string
  | Finish js_value js_string parse_outcome
  | Drop js_string "js_file list"
  | ClearAll

fun apply_event :: "app_state \<Rightarrow> event \<Rightarrow> app_state" where
  "apply_event st (Chunk c) = onChunk c st"
| "apply_event st (Finish inp now r) = onFinish inp now r st"
| "apply_event st (Drop blob files) = handleDrop blob files st"
| "apply_event st ClearAll = clearAll st"

definition run :: "app_state \<Rightarrow> event list \<Rightarrow> app_state" where
  "run st evs = foldl apply_event st evs"

text \<open>
  The history entries that a sequence of events asks to append, in order: one for each
  \<open>Finish\<close> whose payload passes the test of \<open>onFinish\<close>.
\<close>

fun accepted_entries :: "event list \<Rightarrow> history_entry list" where
  "accepted_entries [] = []"
| "accepted_entries (Finish inp now (Parsed v) # evs) =
     (if truthy (opt_member (Some v) (lit ''steps'')) \<and> truthy (opt_member (Some v) (lit ''final_answer''))
      then \<lparr>entry_input = inp, entry_solution = v, entry_timestamp = now\<rparr> # accepted_entries evs
      else accepted_entries evs)"
| "accepted_entries (e # evs) = accepted_entries evs"

section \<open>Network operations\<close>

text \<open>
  The outcome of an awaited \<^verbatim>\<open>fetch\<close>: the promise rejects, or resolves to a response
  with its \<^verbatim>\<open>ok\<close> flag and the outcome of \<^verbatim>\<open>response.json()\<close>.
\<close>

datatype fetch_outcome = FetchRejected | FetchResponse bool parse_outcome


text \<open>\<^verbatim>\<open>JSON.stringify\<close> leaves out a property whose value is \<^verbatim>\<open>undefined\<close>.\<close>

definition own_prop :: "string \<Rightarrow> js_value \<Rightarrow> (js_string \<times> json) list" where
  "own_prop k v = (case v of None \<Rightarrow> [] | Some x \<Rightarrow> [(lit k, x)])"

definition api_url :: js_string where
  "api_url = lit ''/api/math-solutions''"


definition get_body :: json where
  "get_body = JObj [(lit ''method'', JStr (lit ''GET''))]"

text \<open>\<^verbatim>\<open>{ method: "PATCH", id, is_favorite: !currentStatus }\<close>\<close>

definition patch_favorite_body :: "js_value \<Rightarrow> js_value \<Rightarrow> json" where
  "patch_favorite_body ident currentStatus =
     JObj ([(lit ''method'', JStr (lit ''PATCH''))] @ own_prop ''id'' ident @
           [(lit ''is_favorite'', JBool (\<not> truthy currentStatus))])"


definition load_failed_msg :: js_string where
  "load_failed_msg = lit ''Failed to load saved solutions''"

definition favorite_failed_msg :: js_string where
  "favorite_failed_msg = lit ''Failed to update favorite status''"


text \<open>
  \<^verbatim>\<open>
  async function fetchSavedSolutions() {
    try {
      const response = await fetch("/api/math-solutions", {
        method: "POST", headers: { "Content-Type": "application/json" },
        body: JSON.stringify({ method: "GET" }),
      });
      if (!response.ok) throw new Error("Failed to fetch saved solutions");
      const data = await response.json();
      setSavedSolutions(data);
    } catch (err) {
      setError("Failed to load saved solutions");
    }
  }
  \<close>
\<close>

definition fetchSavedSolutions :: "fetch_outcome \<Rightarrow> app_state \<Rightarrow> app_state" where
  "fetchSavedSolutions fo st =
     (let st1 = st\<lparr>requests := requests st @ [Fetch api_url get_body]\<rparr>;
          caught = st1\<lparr>error := Some load_failed_msg\<rparr> in
      case fo of
        FetchRejected \<Rightarrow> caught
      | FetchResponse ok body \<Rightarrow>
          if \<not> ok then caught
          else (case body of
                  SyntaxError \<Rightarrow> caught
                | Parsed data \<Rightarrow> st1\<lparr>savedSolutions := data\<rparr>))"

text \<open>
  \<^verbatim>\<open>
  async function toggleFavorite(id, currentStatus) {
    try {
      await fetch("/api/math-solutions", {
        method: "POST", headers: { "Content-Type": "application/json" },
        body: JSON.stringify({ method: "PATCH", id, is_favorite: !currentStatus }),
      });
      fetchSavedSolutions();
    } catch {
      setError("Failed to update favorite status");
    }
  }
  \<close>
  \<open>patch\<close> is the outcome of the awaited request, \<open>refetch\<close> the outcome of the request
  that \<^verbatim>\<open>fetchSavedSolutions\<close> makes. The response to the PATCH is not inspected.
\<close>

definition toggleFavorite ::
  "js_value \<Rightarrow> js_value \<Rightarrow> fetch_outcome \<Rightarrow> fetch_outcome \<Rightarrow> app_state \<Rightarrow> app_state" where
  "toggleFavorite ident currentStatus patch refetch st =
     (let st1 = st\<lparr>requests := requests st @ [Fetch api_url (patch_favorite_body ident currentStatus)]\<rparr> in
      case patch of
        FetchRejected \<Rightarrow> st1\<lparr>error := Some favorite_failed_msg\<rparr>
      | FetchResponse ok body \<Rightarrow> fetchSavedSolutions refetch st1)"



section \<open>The wording of the specification\<close>

text \<open>
  The specification asks for a non-empty \<^verbatim>\<open>steps\<close> (a sequence) and a non-empty
  \<^verbatim>\<open>final_answer\<close> (a text). These two predicates follow that wording, not the code.
\<close>

definition spec_nonempty_steps :: "json \<Rightarrow> bool" where
  "spec_nonempty_steps v =
     (case opt_member (Some v) (lit ''steps'') of Some (JArr (x # xs)) \<Rightarrow> True | _ \<Rightarrow> False)"

definition spec_nonempty_final_answer :: "json \<Rightarrow> bool" where
  "spec_nonempty_final_answer v =
     (case opt_member (Some v) (lit ''final_answer'') of Some (JStr (c # cs)) \<Rightarrow> True | _ \<Rightarrow> False)"

section \<open>Strings: auxiliary facts\<close>

lemma replace_all_Nil: "replace_all cls [] s = filter (\<lambda>c. \<not> cls c) s"
  by (induction s) (simp_all add: replace_all_def)

lemma cleanEquation_filter:
  "cleanEquation s =
     filter (\<lambda>c. c \<noteq> backslash \<and> c \<noteq> lbrace \<and> c \<noteq> rbrace \<and> c \<noteq> dollar) s"
  by (induction s) (auto simp add: cleanEquation_def replace_all_Nil)

lemma cleanEquation_guarded_eq: "cleanEquation_guarded s = cleanEquation s"
  by (simp add: cleanEquation_guarded_def cleanEquation_def replace_all_def)

lemma startsWith_iff: "startsWith s p \<longleftrightarrow> (\<exists>b. s = p @ b)"
  by (induction s p rule: startsWith.induct) auto

lemma includes_str_iff: "includes_str s p \<longleftrightarrow> (\<exists>a b. s = a @ p @ b)"
proof (induction s)
  case Nil
  then show ?case by (auto simp add: startsWith_iff)
next
  case (Cons c cs)
  show ?case
  proof
    assume "includes_str (c # cs) p"
    then consider "startsWith (c # cs) p" | "includes_str cs p" by auto
    then show "\<exists>a b. c # cs = a @ p @ b"
    proof cases
      case 1
      then obtain b where "c # cs = p @ b" by (auto simp add: startsWith_iff)
      then have "c # cs = [] @ p @ b" by simp
      then show ?thesis by blast
    next
      case 2
      then obtain a b where "cs = a @ p @ b" using Cons.IH by auto
      then have "c # cs = (c # a) @ p @ b" by simp
      then show ?thesis by blast
    qed
  next
    assume "\<exists>a b. c # cs = a @ p @ b"
    then obtain a b where ab: "c # cs = a @ p @ b" by auto
    show "includes_str (c # cs) p"
    proof (cases a)
      case Nil
      then have "startsWith (c # cs) p" using ab by (auto simp add: startsWith_iff)
      then show ?thesis by simp
    next
      case (Cons x a')
      then have "cs = a' @ p @ b" using ab by simp
      then have "includes_str cs p" using Cons.IH by blast
      then show ?thesis by simp
    qed
  qed
qed

lemma startsWith_drop_includes:
  assumes "startsWith (drop i s) p"
  shows "includes_str s p"
proof -
  from assms obtain b where "drop i s = p @ b" by (auto simp add: startsWith_iff)
  then have "s = take i s @ p @ b" by (metis append_take_drop_id)
  then show ?thesis unfolding includes_str_iff by blast
qed

text \<open>Where the regular expression matches, one of the three keywords is a substring.\<close>

lemma match_trig_includes:
  "match_trig s \<Longrightarrow>
     includes_str s (lit ''sin'') \<or> includes_str s (lit ''cos'') \<or> includes_str s (lit ''tan'')"
  unfolding match_trig_def list_ex_iff trig_match_at_def
  by (blast intro: startsWith_drop_includes)

lemma topic_neq_Trigonometry:
  "lit ''Calculus'' \<noteq> lit ''Trigonometry''"
  "lit ''Roots'' \<noteq> lit ''Trigonometry''"
  "lit ''Percentages'' \<noteq> lit ''Trigonometry''"
  "lit ''Matrices'' \<noteq> lit ''Trigonometry''"
  "lit ''General Mathematics'' \<noteq> lit ''Trigonometry''"
  by (simp_all add: lit_def)

lemmas eval_defs =
  lit_def detectMathTopic_def detectMathTopic_includes_def match_trig_def trig_match_at_def
  word_boundary_def word_at_def is_word_char_def integral_sign_def sqrt_sign_def
  backslash_def lbrace_def rbrace_def dollar_def

section \<open>Topic detection\<close>

text \<open>
  Claim C4. For every input string that contains the character \<^verbatim>\<open>=\<close>,
  \<^verbatim>\<open>detectMathTopic\<close> returns \<^verbatim>\<open>"Algebra"\<close>, whatever other keywords the string
  contains: the test for \<^verbatim>\<open>=\<close> comes first. This holds for the version with the
  regular expression and for the version with substring tests.
\<close>

theorem detectMathTopic_equals_sign_Algebra:
  "includes_str inp (lit ''='') \<Longrightarrow>
     detectMathTopic inp = lit ''Algebra'' \<and> detectMathTopic_includes inp = lit ''Algebra''"
  by (simp add: detectMathTopic_def detectMathTopic_includes_def)

text \<open>The input \<^verbatim>\<open>sin x = [1] %\<close> has a trigonometric keyword, a bracket and a percent sign as well.\<close>

theorem detectMathTopic_equals_sign_Algebra_witness:
  "includes_str (lit ''sin x = [1] %'') (lit ''='') \<and>
   detectMathTopic (lit ''sin x = [1] %'') = lit ''Algebra'' \<and>
   detectMathTopic_includes (lit ''sin x = [1] %'') = lit ''Algebra''"
  using detectMathTopic_equals_sign_Algebra [of "lit ''sin x = [1] %''"]
  by (simp add: lit_def)

text \<open>
  Claim C5. For every non-empty input string that contains none of the special tokens
  (\<^verbatim>\<open>=\<close>, the keywords \<^verbatim>\<open>sin\<close>, \<^verbatim>\<open>cos\<close>, \<^verbatim>\<open>tan\<close>, the integral sign, \<^verbatim>\<open>d/dx\<close>, the
  square root sign, \<^verbatim>\<open>%\<close>, \<^verbatim>\<open>matrix\<close>, \<^verbatim>\<open>[\<close>), \<^verbatim>\<open>detectMathTopic\<close> returns
  \<^verbatim>\<open>"General Mathematics"\<close>, in both versions.
\<close>

theorem detectMathTopic_default_General:
  assumes "inp \<noteq> []"
    and "\<not> includes_str inp (lit ''='')"
    and "\<not> includes_str inp (lit ''sin'')"
    and "\<not> includes_str inp (lit ''cos'')"
    and "\<not> includes_str inp (lit ''tan'')"
    and "\<not> includes_str inp integral_sign"
    and "\<not> includes_str inp (lit ''d/dx'')"
    and "\<not> includes_str inp sqrt_sign"
    and "\<not> includes_str inp (lit ''%'')"
    and "\<not> includes_str inp (lit ''matrix'')"
    and "\<not> includes_str inp (lit ''['')"
  shows "detectMathTopic inp = lit ''General Mathematics'' \<and>
         detectMathTopic_includes inp = lit ''General Mathematics''"
proof -
  have "\<not> match_trig inp"
    using assms(3-5) match_trig_includes by blast
  then show ?thesis
    using assms by (simp add: detectMathTopic_def detectMathTopic_includes_def)
qed

theorem detectMathTopic_default_General_witness:
  "lit ''1/2 + 3/4'' \<noteq> [] \<and>
   \<not> includes_str (lit ''1/2 + 3/4'') (lit ''='') \<and>
   \<not> includes_str (lit ''1/2 + 3/4'') (lit ''sin'') \<and>
   \<not> includes_str (lit ''1/2 + 3/4'') (lit ''cos'') \<and>
   \<not> includes_str (lit ''1/2 + 3/4'') (lit ''tan'') \<and>
   \<not> includes_str (lit ''1/2 + 3/4'') integral_sign \<and>
   \<not> includes_str (lit ''1/2 + 3/4'') (lit ''d/dx'') \<and>
   \<not> includes_str (lit ''1/2 + 3/4'') sqrt_sign \<and>
   \<not> includes_str (lit ''1/2 + 3/4'') (lit ''%'') \<and>
   \<not> includes_str (lit ''1/2 + 3/4'') (lit ''matrix'') \<and>
   \<not> includes_str (lit ''1/2 + 3/4'') (lit ''['') \<and>
   detectMathTopic (lit ''1/2 + 3/4'') = lit ''General Mathematics'' \<and>
   detectMathTopic_includes (lit ''1/2 + 3/4'') = lit ''General Mathematics''"
  using detectMathTopic_default_General [of "lit ''1/2 + 3/4''"]
  by (simp add: lit_def integral_sign_def sqrt_sign_def)

text \<open>
  Claim C9 says that the version with the regular expression and the version with
  substring tests return the same topic for every input. They do not: in \<^verbatim>\<open>sine\<close>
  the keyword \<^verbatim>\<open>sin\<close> is a substring but not a whole word.
\<close>

theorem detectMathTopic_versions_differ:
  "detectMathTopic_includes (lit ''sine'') = lit ''Trigonometry'' \<and>
   detectMathTopic (lit ''sine'') = lit ''General Mathematics'' \<and>
   detectMathTopic_includes (lit ''sine'') \<noteq> detectMathTopic (lit ''sine'')"
  by (simp add: eval_defs)

text \<open>
  Claim C9, amended. The two versions return the same topic for every input that contains
  \<^verbatim>\<open>=\<close>, or in which the regular expression matches (one of \<^verbatim>\<open>sin\<close>, \<^verbatim>\<open>cos\<close>,
  \<^verbatim>\<open>tan\<close> stands as a whole word), or in which none of the three is a substring. On
  every other input the substring version returns \<^verbatim>\<open>"Trigonometry"\<close> and the version
  with the regular expression does not.
\<close>

theorem detectMathTopic_versions_agree:
  "(includes_str s (lit ''='') \<or> match_trig s \<or>
      \<not> (includes_str s (lit ''sin'') \<or> includes_str s (lit ''cos'') \<or> includes_str s (lit ''tan''))
     \<longrightarrow> detectMathTopic_includes s = detectMathTopic s) \<and>
   (\<not> includes_str s (lit ''='') \<and> \<not> match_trig s \<and>
      (includes_str s (lit ''sin'') \<or> includes_str s (lit ''cos'') \<or> includes_str s (lit ''tan''))
     \<longrightarrow> detectMathTopic_includes s = lit ''Trigonometry'' \<and>
          detectMathTopic s \<noteq> lit ''Trigonometry'')"
proof (intro conjI impI)
  assume a: "includes_str s (lit ''='') \<or> match_trig s \<or>
      \<not> (includes_str s (lit ''sin'') \<or> includes_str s (lit ''cos'') \<or> includes_str s (lit ''tan''))"
  show "detectMathTopic_includes s = detectMathTopic s"
  proof (cases "match_trig s")
    case True
    then show ?thesis
      using match_trig_includes [OF True]
      by (simp add: detectMathTopic_def detectMathTopic_includes_def)
  next
    case False
    then show ?thesis
      using a by (auto simp add: detectMathTopic_def detectMathTopic_includes_def)
  qed
next
  assume b: "\<not> includes_str s (lit ''='') \<and> \<not> match_trig s \<and>
      (includes_str s (lit ''sin'') \<or> includes_str s (lit ''cos'') \<or> includes_str s (lit ''tan''))"
  then show "detectMathTopic_includes s = lit ''Trigonometry''"
    by (simp add: detectMathTopic_includes_def)
  show "detectMathTopic s \<noteq> lit ''Trigonometry''"
    using b by (simp add: detectMathTopic_def topic_neq_Trigonometry)
qed

text \<open>
  The first part at \<^verbatim>\<open>2 cos x\<close>, where the expression matches, the second at
  \<^verbatim>\<open>tangent [\<close>, where it does not.
\<close>

theorem detectMathTopic_versions_agree_witness:
  "match_trig (lit ''2 cos x'') \<and>
   detectMathTopic_includes (lit ''2 cos x'') = detectMathTopic (lit ''2 cos x'') \<and>
   \<not> includes_str (lit ''tangent ['') (lit ''='') \<and> \<not> match_trig (lit ''tangent ['') \<and>
   includes_str (lit ''tangent ['') (lit ''tan'') \<and>
   detectMathTopic_includes (lit ''tangent ['') = lit ''Trigonometry'' \<and>
   detectMathTopic (lit ''tangent ['') \<noteq> lit ''Trigonometry''"
proof -
  have m: "match_trig (lit ''2 cos x'')"
    by (simp add: eval_defs)
  have n: "\<not> includes_str (lit ''tangent ['') (lit ''='') \<and> \<not> match_trig (lit ''tangent ['') \<and>
      includes_str (lit ''tangent ['') (lit ''tan'')"
    by (simp add: eval_defs)
  show ?thesis
    using m n detectMathTopic_versions_agree [of "lit ''2 cos x''"]
      detectMathTopic_versions_agree [of "lit ''tangent [''"]
    by blast
qed

section \<open>Cleaning display strings\<close>

text \<open>
  Claim C6. For every input string, \<^verbatim>\<open>cleanEquation\<close> returns the string without its
  backslashes, opening and closing braces and dollar signs, every other code unit kept
  and in order; \<^verbatim>\<open>\frac{1}{2}\<close> (the JavaScript literal \<^verbatim>\<open>"\\frac{1}{2}"\<close>)
  becomes \<^verbatim>\<open>frac12\<close>. The same holds for the copy with the guard.
\<close>

theorem cleanEquation_removes_markup:
  "cleanEquation s =
     filter (\<lambda>c. c \<noteq> backslash \<and> c \<noteq> lbrace \<and> c \<noteq> rbrace \<and> c \<noteq> dollar) s \<and>
   cleanEquation_guarded s =
     filter (\<lambda>c. c \<noteq> backslash \<and> c \<noteq> lbrace \<and> c \<noteq> rbrace \<and> c \<noteq> dollar) s \<and>
   cleanEquation (backslash # lit ''frac{1}{2}'') = lit ''frac12'' \<and>
   cleanEquation_guarded (backslash # lit ''frac{1}{2}'') = lit ''frac12''"
proof -
  have "cleanEquation (backslash # lit ''frac{1}{2}'') = lit ''frac12''"
    by (simp add: cleanEquation_filter eval_defs)
  then show ?thesis
    by (simp add: cleanEquation_guarded_eq cleanEquation_filter)
qed

theorem cleanEquation_removes_markup_witness:
  "cleanEquation (lit ''$x^{2}$ + {y}'') = lit ''x^2 + y'' \<and>
   cleanEquation_guarded [] = []"
  using cleanEquation_removes_markup [of "lit ''$x^{2}$ + {y}''"]
    cleanEquation_removes_markup [of "[]"]
  by (simp add: eval_defs)

text \<open>
  Claim C10. \<^verbatim>\<open>cleanEquation\<close> is idempotent: for every input string \<open>s\<close>,
  \<^verbatim>\<open>cleanEquation(cleanEquation(s))\<close> equals \<^verbatim>\<open>cleanEquation(s)\<close>; so is the copy with
  the guard.
\<close>

theorem cleanEquation_idempotent:
  "cleanEquation (cleanEquation s) = cleanEquation s \<and>
   cleanEquation_guarded (cleanEquation_guarded s) = cleanEquation_guarded s"
  by (simp add: cleanEquation_guarded_eq cleanEquation_filter)

theorem cleanEquation_idempotent_witness:
  "cleanEquation (cleanEquation (lit ''${a}$'')) = cleanEquation (lit ''${a}$'') \<and>
   cleanEquation (lit ''${a}$'') = lit ''a''"
  using cleanEquation_idempotent [of "lit ''${a}$''"]
  by (simp add: cleanEquation_filter eval_defs)

section \<open>The streaming handler: auxiliary facts\<close>

lemma truthy_member: "truthy (Some v) \<Longrightarrow> member (Some v) k = Normal (opt_member (Some v) k)"
  by (cases v) (simp_all add: opt_member_def)

lemma falsy_opt_member: "\<not> truthy (Some v) \<Longrightarrow> opt_member (Some v) k = None"
  by (cases v) (simp_all add: opt_member_def)

text \<open>
  The two handlers are the same function: on a truthy payload no property access throws,
  so the outer \<^verbatim>\<open>catch\<close> of the version in part\_000 is never entered.
\<close>

lemma onFinish_part000_eq: "onFinish_part000 inp now r st = onFinish inp now r st"
proof (cases r)
  case SyntaxError
  then show ?thesis by (simp add: onFinish_part000_def onFinish_def)
next
  case (Parsed v)
  show ?thesis
  proof (cases "truthy (Some v)")
    case True
    then show ?thesis
      using Parsed by (simp add: onFinish_part000_def onFinish_def truthy_member Let_def)
  next
    case False
    then show ?thesis
      using Parsed by (simp add: onFinish_part000_def onFinish_def falsy_opt_member Let_def)
  qed
qed

lemma spec_nonempty_truthy:
  "spec_nonempty_steps v \<Longrightarrow> truthy (opt_member (Some v) (lit ''steps''))"
  "spec_nonempty_final_answer v \<Longrightarrow> truthy (opt_member (Some v) (lit ''final_answer''))"
  by (auto simp add: spec_nonempty_steps_def spec_nonempty_final_answer_def
      split: option.splits json.splits list.splits)

lemma slice_last_length: "length (slice_last n xs) \<le> n"
  by (simp add: slice_last_def)

lemma slice_last_id: "length xs \<le> n \<Longrightarrow> slice_last n xs = xs"
  by (simp add: slice_last_def)

lemma slice_last_append: "slice_last n (slice_last n xs @ ys) = slice_last n (xs @ ys)"
proof (cases "length xs \<le> n")
  case True
  then show ?thesis by (simp add: slice_last_def)
next
  case False
  then have "length xs + length ys - (length xs - n + n) + (length xs - n) =
      length xs + length ys - n"
    by arith
  then show ?thesis using False by (simp add: slice_last_def)
qed

lemma accepted_entries_Cons:
  "accepted_entries (e # evs) = accepted_entries [e] @ accepted_entries evs"
proof (cases e)
  case (Finish inp now r)
  then show ?thesis by (cases r) simp_all
qed simp_all

text \<open>One event appends the entry it asks for and cuts to five, or leaves the history alone.\<close>

lemma history_apply_event:
  "history (apply_event st e) = slice_last 5 (history st @ accepted_entries [e]) \<or>
   (accepted_entries [e] = [] \<and> history (apply_event st e) = history st)"
proof (cases e)
  case (Chunk c)
  then show ?thesis by (simp add: onChunk_def)
next
  case (Finish inp now r)
  then show ?thesis by (cases r) (simp_all add: onFinish_def Let_def)
next
  case (Drop blob files)
  then show ?thesis by (simp add: handleDrop_def split: list.splits)
next
  case ClearAll
  then show ?thesis by (simp add: clearAll_def)
qed

lemma history_run:
  "length (history st) \<le> 5 \<Longrightarrow>
     history (run st evs) = slice_last 5 (history st @ accepted_entries evs)"
proof (induction evs arbitrary: st)
  case Nil
  then show ?case by (simp add: run_def slice_last_id)
next
  case (Cons e evs)
  have r: "run st (e # evs) = run (apply_event st e) evs"
    by (simp add: run_def)
  from history_apply_event [of st e] show ?case
  proof
    assume h: "history (apply_event st e) = slice_last 5 (history st @ accepted_entries [e])"
    then have "length (history (apply_event st e)) \<le> 5"
      by (simp add: slice_last_length)
    then have "history (run (apply_event st e) evs) =
        slice_last 5 (history (apply_event st e) @ accepted_entries evs)"
      by (rule Cons.IH)
    also have "\<dots> = slice_last 5 ((history st @ accepted_entries [e]) @ accepted_entries evs)"
      unfolding h by (rule slice_last_append)
    finally show ?thesis
      unfolding r using accepted_entries_Cons [of e evs] by simp
  next
    assume h: "accepted_entries [e] = [] \<and> history (apply_event st e) = history st"
    then have "length (history (apply_event st e)) \<le> 5"
      using Cons.prems by simp
    then have "history (run (apply_event st e) evs) =
        slice_last 5 (history (apply_event st e) @ accepted_entries evs)"
      by (rule Cons.IH)
    then show ?thesis
      unfolding r using h accepted_entries_Cons [of e evs] by simp
  qed
qed

section \<open>Completion of a stream\<close>

text \<open>
  Claim C1 says that a payload that parses is accepted only if its \<^verbatim>\<open>steps\<close> is
  non-empty and its \<^verbatim>\<open>final_answer\<close> is non-empty. The handler tests truthiness, and an
  empty array is truthy: the payload \<^verbatim>\<open>{"steps": [], "final_answer": "4"}\<close> is
  committed as the Solution, with no error reported.
\<close>

theorem onFinish_accepts_empty_steps:
  "solution (onFinish (Some (JStr (lit ''2+2''))) (lit ''t'')
      (Parsed (JObj [(lit ''steps'', JArr []), (lit ''final_answer'', JStr (lit ''4''))])) init_state) =
     Some (JObj [(lit ''steps'', JArr []), (lit ''final_answer'', JStr (lit ''4''))]) \<and>
   error (onFinish (Some (JStr (lit ''2+2''))) (lit ''t'')
      (Parsed (JObj [(lit ''steps'', JArr []), (lit ''final_answer'', JStr (lit ''4''))])) init_state) = None \<and>
   solution init_state = None \<and>
   \<not> spec_nonempty_steps (JObj [(lit ''steps'', JArr []), (lit ''final_answer'', JStr (lit ''4''))])"
  by (simp add: onFinish_def init_state_def opt_member_def spec_nonempty_steps_def lit_def)

text \<open>
  Claim C1, amended. For every completed stream whose text parses as JSON, the handler
  commits the payload as the Solution (and appends the history entry) exactly when the
  payload's \<^verbatim>\<open>steps\<close> and \<^verbatim>\<open>final_answer\<close> are both truthy, that is present and none
  of \<^verbatim>\<open>null\<close>, \<^verbatim>\<open>false\<close>, zero, NaN or the empty string; otherwise it reports
  \<^verbatim>\<open>"Received incomplete solution data. Please try again."\<close> and leaves the Solution and
  the history as they were. The buffer is cleared either way. A payload with a non-empty
  \<^verbatim>\<open>steps\<close> array and a non-empty \<^verbatim>\<open>final_answer\<close> string passes the test; so does
  one whose \<^verbatim>\<open>steps\<close> is an empty array. Both versions of the handler agree.
\<close>

theorem onFinish_accepts_truthy_payload:
  "(truthy (opt_member (Some v) (lit ''steps'')) \<and> truthy (opt_member (Some v) (lit ''final_answer''))
      \<longrightarrow> solution (onFinish inp now (Parsed v) st) = Some v \<and>
          history (onFinish inp now (Parsed v) st) =
            slice_last 5 (history st @
              [\<lparr>entry_input = inp, entry_solution = v, entry_timestamp = now\<rparr>]) \<and>
          error (onFinish inp now (Parsed v) st) = error st) \<and>
   (\<not> (truthy (opt_member (Some v) (lit ''steps'')) \<and> truthy (opt_member (Some v) (lit ''final_answer'')))
      \<longrightarrow> error (onFinish inp now (Parsed v) st) = Some incomplete_msg \<and>
          solution (onFinish inp now (Parsed v) st) = solution st \<and>
          history (onFinish inp now (Parsed v) st) = history st) \<and>
   streamingResponse (onFinish inp now (Parsed v) st) = [] \<and>
   (spec_nonempty_steps v \<and> spec_nonempty_final_answer v
      \<longrightarrow> truthy (opt_member (Some v) (lit ''steps'')) \<and>
          truthy (opt_member (Some v) (lit ''final_answer''))) \<and>
   onFinish_part000 inp now (Parsed v) st = onFinish inp now (Parsed v) st \<and>
   incomplete_msg = lit ''Received incomplete solution data. Please try again.''"
  by (simp add: onFinish_part000_eq spec_nonempty_truthy)
     (simp add: onFinish_def incomplete_msg_def Let_def)

text \<open>
  An accepted payload with an empty \<^verbatim>\<open>steps\<close>, and a rejected one with an empty
  \<^verbatim>\<open>final_answer\<close> that leaves the Solution in place.
\<close>

theorem onFinish_accepts_truthy_payload_witness:
  "solution (onFinish None (lit ''t'')
      (Parsed (JObj [(lit ''steps'', JArr []), (lit ''final_answer'', JStr (lit ''4''))])) init_state) =
     Some (JObj [(lit ''steps'', JArr []), (lit ''final_answer'', JStr (lit ''4''))]) \<and>
   error (onFinish None (lit ''t'')
      (Parsed (JObj [(lit ''steps'', JArr [JNull]), (lit ''final_answer'', JStr [])]))
      (init_state\<lparr>solution := Some JNull\<rparr>)) =
     Some (lit ''Received incomplete solution data. Please try again.'') \<and>
   solution (onFinish None (lit ''t'')
      (Parsed (JObj [(lit ''steps'', JArr [JNull]), (lit ''final_answer'', JStr [])]))
      (init_state\<lparr>solution := Some JNull\<rparr>)) = Some JNull"
  using onFinish_accepts_truthy_payload
      [of "JObj [(lit ''steps'', JArr []), (lit ''final_answer'', JStr (lit ''4''))]"
        None "lit ''t''" init_state]
    onFinish_accepts_truthy_payload
      [of "JObj [(lit ''steps'', JArr [JNull]), (lit ''final_answer'', JStr [])]"
        None "lit ''t''" "init_state\<lparr>solution := Some JNull\<rparr>"]
  by (simp add: opt_member_def lit_def init_state_def)

text \<open>
  Claim C2. For every completed stream whose text is not valid JSON, the handler reports
  the format error \<^verbatim>\<open>"Received invalid response format. Please try again."\<close>, does not
  change the current Solution (nor the history) and clears the streaming buffer; both
  versions of the handler do. The claim is about the completion handler: the Solution
  is the one current when the stream completes.
\<close>

theorem onFinish_invalid_format:
  "error (onFinish inp now SyntaxError st) = Some invalid_format_msg \<and>
   invalid_format_msg = lit ''Received invalid response format. Please try again.'' \<and>
   solution (onFinish inp now SyntaxError st) = solution st \<and>
   history (onFinish inp now SyntaxError st) = history st \<and>
   streamingResponse (onFinish inp now SyntaxError st) = [] \<and>
   onFinish_part000 inp now SyntaxError st = onFinish inp now SyntaxError st"
  by (simp add: onFinish_part000_eq) (simp add: onFinish_def invalid_format_msg_def)

theorem onFinish_invalid_format_witness:
  "error (onFinish None (lit ''t'') SyntaxError
      (init_state\<lparr>solution := Some (JObj []), streamingResponse := lit ''{steps''\<rparr>)) =
     Some (lit ''Received invalid response format. Please try again.'') \<and>
   solution (onFinish None (lit ''t'') SyntaxError
      (init_state\<lparr>solution := Some (JObj []), streamingResponse := lit ''{steps''\<rparr>)) =
     Some (JObj []) \<and>
   streamingResponse (onFinish None (lit ''t'') SyntaxError
      (init_state\<lparr>solution := Some (JObj []), streamingResponse := lit ''{steps''\<rparr>)) = []"
  using onFinish_invalid_format
      [of None "lit ''t''" "init_state\<lparr>solution := Some (JObj []), streamingResponse := lit ''{steps''\<rparr>"]
  by (simp add: init_state_def)

section \<open>History\<close>

text \<open>
  Claim C3. The history always holds at most the 5 most recent entries. After every
  sequence of events from the initial state, the history is the last five of the
  entries that the successful completions appended, in order: each successful solve
  appends one entry, up to five entries all are kept, and with a sixth the oldest is
  gone. Both versions of the handler write the same history.
\<close>

theorem history_last_five:
  "history (run init_state evs) = slice_last 5 (accepted_entries evs) \<and>
   length (history (run init_state evs)) \<le> 5 \<and>
   (length (accepted_entries evs) \<le> 5 \<longrightarrow> history (run init_state evs) = accepted_entries evs) \<and>
   (length (accepted_entries evs) = 6 \<longrightarrow> history (run init_state evs) = tl (accepted_entries evs)) \<and>
   history (onFinish_part000 inp now r st) = history (onFinish inp now r st)"
proof -
  have h: "history (run init_state evs) = slice_last 5 (accepted_entries evs)"
    using history_run [of init_state evs] by (simp add: init_state_def)
  have six: "length xs = 6 \<Longrightarrow> slice_last 5 xs = tl xs" for xs :: "history_entry list"
    by (simp add: slice_last_def drop_Suc)
  show ?thesis
    by (simp add: h slice_last_length slice_last_id six onFinish_part000_eq)
qed

text \<open>
  Six successful completions, stamped 1 to 6, among a chunk, a syntax error, a payload
  without \<^verbatim>\<open>final_answer\<close> and a reset: the history holds those stamped 2 to 6.
\<close>

theorem history_last_five_witness:
  "length (accepted_entries
     [Finish None (lit ''1'') (Parsed (JObj [(lit ''steps'', JArr []), (lit ''final_answer'', JStr (lit ''a''))])),
      Chunk (lit ''{''),
      Finish None (lit ''2'') (Parsed (JObj [(lit ''steps'', JArr []), (lit ''final_answer'', JStr (lit ''b''))])),
      Finish None (lit ''x'') SyntaxError,
      Finish None (lit ''3'') (Parsed (JObj [(lit ''steps'', JArr []), (lit ''final_answer'', JStr (lit ''c''))])),
      Finish None (lit ''y'') (Parsed (JObj [(lit ''steps'', JArr [])])),
      Finish None (lit ''4'') (Parsed (JObj [(lit ''steps'', JArr []), (lit ''final_answer'', JStr (lit ''d''))])),
      ClearAll,
      Finish None (lit ''5'') (Parsed (JObj [(lit ''steps'', JArr []), (lit ''final_answer'', JStr (lit ''e''))])),
      Finish None (lit ''6'') (Parsed (JObj [(lit ''steps'', JArr []), (lit ''final_answer'', JStr (lit ''f''))]))]) = 6 \<and>
   map entry_timestamp (history (run init_state
     [Finish None (lit ''1'') (Parsed (JObj [(lit ''steps'', JArr []), (lit ''final_answer'', JStr (lit ''a''))])),
      Chunk (lit ''{''),
      Finish None (lit ''2'') (Parsed (JObj [(lit ''steps'', JArr []), (lit ''final_answer'', JStr (lit ''b''))])),
      Finish None (lit ''x'') SyntaxError,
      Finish None (lit ''3'') (Parsed (JObj [(lit ''steps'', JArr []), (lit ''final_answer'', JStr (lit ''c''))])),
      Finish None (lit ''y'') (Parsed (JObj [(lit ''steps'', JArr [])])),
      Finish None (lit ''4'') (Parsed (JObj [(lit ''steps'', JArr []), (lit ''final_answer'', JStr (lit ''d''))])),
      ClearAll,
      Finish None (lit ''5'') (Parsed (JObj [(lit ''steps'', JArr []), (lit ''final_answer'', JStr (lit ''e''))])),
      Finish None (lit ''6'') (Parsed (JObj [(lit ''steps'', JArr []), (lit ''final_answer'', JStr (lit ''f''))]))])) =
     [lit ''2'', lit ''3'', lit ''4'', lit ''5'', lit ''6'']"
  using history_last_five [of
     "[Finish None (lit ''1'') (Parsed (JObj [(lit ''steps'', JArr []), (lit ''final_answer'', JStr (lit ''a''))])),
      Chunk (lit ''{''),
      Finish None (lit ''2'') (Parsed (JObj [(lit ''steps'', JArr []), (lit ''final_answer'', JStr (lit ''b''))])),
      Finish None (lit ''x'') SyntaxError,
      Finish None (lit ''3'') (Parsed (JObj [(lit ''steps'', JArr []), (lit ''final_answer'', JStr (lit ''c''))])),
      Finish None (lit ''y'') (Parsed (JObj [(lit ''steps'', JArr [])])),
      Finish None (lit ''4'') (Parsed (JObj [(lit ''steps'', JArr []), (lit ''final_answer'', JStr (lit ''d''))])),
      ClearAll,
      Finish None (lit ''5'') (Parsed (JObj [(lit ''steps'', JArr []), (lit ''final_answer'', JStr (lit ''e''))])),
      Finish None (lit ''6'') (Parsed (JObj [(lit ''steps'', JArr []), (lit ''final_answer'', JStr (lit ''f''))]))]"
     None "[]" SyntaxError init_state]
  by (simp add: opt_member_def lit_def slice_last_def)

section \<open>Saved solutions\<close>

text \<open>
  Claim C7 says that every invocation of the favorite toggle issues the PATCH and then
  re-fetches the collection. When the PATCH request itself fails (the \<^verbatim>\<open>fetch\<close>
  promise rejects), the \<^verbatim>\<open>catch\<close> reports an error and no GET follows.
\<close>

theorem toggleFavorite_rejected_no_refetch:
  "requests (toggleFavorite (Some (JNum (Num 7))) (Some (JBool False)) FetchRejected
      (FetchResponse True (Parsed (JArr []))) init_state) =
     [Fetch api_url (patch_favorite_body (Some (JNum (Num 7))) (Some (JBool False)))] \<and>
   Fetch api_url get_body \<notin> set (requests (toggleFavorite (Some (JNum (Num 7))) (Some (JBool False))
      FetchRejected (FetchResponse True (Parsed (JArr []))) init_state)) \<and>
   error (toggleFavorite (Some (JNum (Num 7))) (Some (JBool False)) FetchRejected
      (FetchResponse True (Parsed (JArr []))) init_state) = Some favorite_failed_msg"
  by (simp add: toggleFavorite_def init_state_def patch_favorite_body_def get_body_def lit_def
      own_prop_def)

text \<open>
  Claim C7, amended. For every saved solution id and current favorite status, the toggle
  issues a PATCH request that carries the negation of the current status; whenever that
  request completes (the \<^verbatim>\<open>fetch\<close> promise resolves, with whatever HTTP status), it
  then issues the GET of the whole collection, in that order and whatever the GET's own
  outcome. When the PATCH request is rejected, only the PATCH is issued and
  \<^verbatim>\<open>"Failed to update favorite status"\<close> is reported.
\<close>

theorem toggleFavorite_patch_then_refetch:
  "(patch \<noteq> FetchRejected \<longrightarrow>
      requests (toggleFavorite ident currentStatus patch refetch st) =
        requests st @
          [Fetch api_url (patch_favorite_body ident currentStatus), Fetch api_url get_body]) \<and>
   (patch = FetchRejected \<longrightarrow>
      requests (toggleFavorite ident currentStatus patch refetch st) =
        requests st @ [Fetch api_url (patch_favorite_body ident currentStatus)] \<and>
      error (toggleFavorite ident currentStatus patch refetch st) = Some favorite_failed_msg) \<and>
   patch_favorite_body ident (Some (JBool b)) =
     JObj ([(lit ''method'', JStr (lit ''PATCH''))] @ own_prop ''id'' ident @
           [(lit ''is_favorite'', JBool (\<not> b))]) \<and>
   get_body = JObj [(lit ''method'', JStr (lit ''GET''))]"
proof -
  have "requests (fetchSavedSolutions refetch s) = requests s @ [Fetch api_url get_body]" for s
    by (simp add: fetchSavedSolutions_def Let_def split: fetch_outcome.splits parse_outcome.splits)
  then show ?thesis
    by (cases patch) (simp_all add: toggleFavorite_def Let_def patch_favorite_body_def get_body_def)
qed

text \<open>A PATCH answered with an error status, for a solution that is a favorite: the GET follows.\<close>

theorem toggleFavorite_patch_then_refetch_witness:
  "FetchResponse False SyntaxError \<noteq> FetchRejected \<and>
   requests (toggleFavorite (Some (JNum (Num 7))) (Some (JBool True)) (FetchResponse False SyntaxError)
      FetchRejected init_state) =
     [Fetch (lit ''/api/math-solutions'')
        (JObj [(lit ''method'', JStr (lit ''PATCH'')), (lit ''id'', JNum (Num 7)),
               (lit ''is_favorite'', JBool False)]),
      Fetch (lit ''/api/math-solutions'') (JObj [(lit ''method'', JStr (lit ''GET''))])]"
  using toggleFavorite_patch_then_refetch
      [of "FetchResponse False SyntaxError" "Some (JNum (Num 7))" "Some (JBool True)"
        FetchRejected init_state True]
  by (simp add: init_state_def api_url_def own_prop_def)

section \<open>Image to equation\<close>



end
